theory Spec2Isabelle
  imports Main "HOL-Library.Word"
begin

section \<open>Data model of \<open>hs_timer.c\<close>\<close>

text \<open>
  The timer module keeps one heap object per timer (\<open>struct _hs_timer\<close>) and talks to the
  POSIX per-process timer service (\<open>timer_create\<close>, \<open>timer_settime\<close>, \<open>timer_delete\<close>).
  The embedding is sequential: every public function is one atomic step on a world that
  holds the heap, the live POSIX timers and a trace of the externally visible calls that
  leave no other mark on the state. Each function body of the source runs between
  \<open>pthread_mutex_lock\<close> and \<open>pthread_mutex_unlock\<close> on the object's mutex; in a
  sequential model these pairs have no effect and are left out, whereas
  \<open>pthread_mutex_destroy\<close> is recorded in the trace.
\<close>

type_synonym u32 = "32 word"

text \<open>Addresses of objects and of functions; \<open>NULL\<close> is address 0.\<close>

type_synonym ptr = nat
type_synonym hs_timer_cb = nat
type_synonym timer_t = nat

abbreviation (input) NULL :: nat where
  "NULL \<equiv> 0"

definition UINT32_MAX :: u32 where
  "UINT32_MAX = 4294967295"

text \<open>\<open>HS_TIMER_REPEAT_ONCE\<close> and \<open>HS_TIMER_REPEAT_FOREVER\<close> of \<open>hs_timer.h\<close>.\<close>

definition HS_TIMER_REPEAT_ONCE :: u32 where
  "HS_TIMER_REPEAT_ONCE = 1"

definition HS_TIMER_REPEAT_FOREVER :: u32 where
  "HS_TIMER_REPEAT_FOREVER = UINT32_MAX"

datatype hs_timer_status =
    E_HS_TIMER_STATUS_CREATED
  | E_HS_TIMER_STATUS_RUNNING
  | E_HS_TIMER_STATUS_PAUSED
  | E_HS_TIMER_STATUS_REQUEST_DESTROY

text \<open>
  \<open>struct _hs_timer\<close> without its mutex (see above). \<open>timer_cb\<close> is a function pointer: the
  address of a callback, \<open>NULL\<close> when none is set.
\<close>

record hs_timer =
  timer_id :: timer_t
  status :: hs_timer_status
  timer_cb :: hs_timer_cb
  repeat_count :: u32
  timeout_ms :: u32
  user_data :: ptr

text \<open>\<open>struct timespec\<close> and \<open>struct itimerspec\<close>; \<open>time_t\<close> and \<open>long\<close> values as integers.\<close>

record timespec =
  tv_sec :: int
  tv_nsec :: int

record itimerspec =
  it_interval :: timespec
  it_value :: timespec

text \<open>The value of \<open>struct itimerspec timer_spec = {0}\<close>.\<close>

definition itimerspec_zero :: itimerspec where
  "itimerspec_zero =
     \<lparr>it_interval = \<lparr>tv_sec = 0, tv_nsec = 0\<rparr>, it_value = \<lparr>tv_sec = 0, tv_nsec = 0\<rparr>\<rparr>"

text \<open>
  POSIX \<open>timer_settime\<close>: a timer whose \<open>it_value\<close> is zero is disarmed, any other value
  arms it.
\<close>

definition alarm_armed :: "itimerspec \<Rightarrow> bool" where
  "alarm_armed s \<longleftrightarrow> \<not> (tv_sec (it_value s) = 0 \<and> tv_nsec (it_value s) = 0)"

datatype event =
    EvCallback hs_timer_cb ptr
  | EvMutexDestroy ptr

text \<open>
  The world. \<open>heap\<close> maps the address of every allocated timer object to its contents
  (\<open>free\<close> removes the address); \<open>alarms\<close> maps every existing POSIX timer to the
  \<open>itimerspec\<close> it was last programmed with; \<open>next_timer\<close> is the id the next successful
  \<open>timer_create\<close> hands out. \<open>create_fails\<close> and \<open>settime_fails\<close> say whether the
  operating system refuses the next \<open>timer_create\<close> or \<open>timer_settime\<close>. \<open>trace\<close> lists
  the callback invocations and mutex destructions so far, \<open>ext\<close> is the memory of the
  application outside the module.
\<close>

record 'e world =
  heap :: "ptr \<rightharpoonup> hs_timer"
  alarms :: "timer_t \<rightharpoonup> itimerspec"
  next_timer :: timer_t
  create_fails :: bool
  settime_fails :: bool
  trace :: "event list"
  ext :: 'e

section \<open>The alarm service and the allocator\<close>

text \<open>
  \<open>timer_create\<close>: returns \<open>-1\<close> and writes nothing on failure; on success returns 0 and
  the id of a new, disarmed timer (which the caller stores through the \<open>timerid\<close>
  pointer).
\<close>

definition timer_create :: "'e world \<Rightarrow> int \<times> timer_t \<times> 'e world" where
  "timer_create w =
     (if create_fails w then (-1, 0, w)
      else (0, next_timer w,
            w\<lparr>alarms := (alarms w)(next_timer w \<mapsto> itimerspec_zero),
              next_timer := Suc (next_timer w)\<rparr>))"

text \<open>\<open>timer_settime\<close>: \<open>-1\<close> when the id names no existing timer or the system refuses.\<close>

definition timer_settime :: "timer_t \<Rightarrow> itimerspec \<Rightarrow> 'e world \<Rightarrow> int \<times> 'e world" where
  "timer_settime tid spec w =
     (if settime_fails w \<or> alarms w tid = None then (-1, w)
      else (0, w\<lparr>alarms := (alarms w)(tid \<mapsto> spec)\<rparr>))"

text \<open>\<open>timer_delete\<close>; the source ignores its result.\<close>

definition timer_delete :: "timer_t \<Rightarrow> 'e world \<Rightarrow> 'e world" where
  "timer_delete tid w = w\<lparr>alarms := (alarms w)(tid := None)\<rparr>"

definition pthread_mutex_destroy :: "ptr \<Rightarrow> 'e world \<Rightarrow> 'e world" where
  "pthread_mutex_destroy p w = w\<lparr>trace := trace w @ [EvMutexDestroy p]\<rparr>"

definition free :: "ptr \<Rightarrow> 'e world \<Rightarrow> 'e world" where
  "free p w = w\<lparr>heap := (heap w)(p := None)\<rparr>"

section \<open>Static helpers\<close>

text \<open>\<open>hs_timer_can_set_params\<close>; the argument is the object behind the pointer, \<open>None\<close> for \<open>NULL\<close>.\<close>

fun hs_timer_can_set_params :: "hs_timer option \<Rightarrow> bool" where
  "hs_timer_can_set_params None = False"
| "hs_timer_can_set_params (Some t) =
     (if status t = E_HS_TIMER_STATUS_CREATED \<or> status t = E_HS_TIMER_STATUS_RUNNING \<or>
         status t = E_HS_TIMER_STATUS_PAUSED
      then True else False)"

text \<open>
  \<open>hs_timer_ms_to_timespec_one_shot\<close>. The second argument is the output struct behind
  \<open>timer_spec\<close> (\<open>None\<close> for \<open>NULL\<close>); the result is the return value and the struct after
  the call. \<open>ms / 1000\<close> and \<open>(ms % 1000) * 1000000\<close> are computed in \<open>uint32_t\<close>
  (the product wraps modulo \<open>2 ^ 32\<close>) and then converted to the field's signed type.
\<close>

fun hs_timer_ms_to_timespec_one_shot :: "u32 \<Rightarrow> itimerspec option \<Rightarrow> int \<times> itimerspec option" where
  "hs_timer_ms_to_timespec_one_shot ms None = (-1, None)"
| "hs_timer_ms_to_timespec_one_shot ms (Some timer_spec) =
     (0, Some (timer_spec
        \<lparr>it_interval := \<lparr>tv_sec = 0, tv_nsec = 0\<rparr>,
         it_value := \<lparr>tv_sec = uint (ms div 1000), tv_nsec = uint ((ms mod 1000) * 1000000)\<rparr>\<rparr>))"

text \<open>Reading a local struct back after a call that was given its address.\<close>

fun local_after :: "'a \<Rightarrow> 'a option \<Rightarrow> 'a" where
  "local_after old None = old"
| "local_after old (Some new) = new"

section \<open>Public functions\<close>

text \<open>
  A public function takes the handle (an address), its other arguments and the world. The
  result is \<open>None\<close> when the function dereferences a handle that is neither \<open>NULL\<close> nor the
  address of an allocated object (undefined behaviour in C), and otherwise the return
  value with the world after the call.
\<close>

text \<open>
  \<open>hs_timer_create\<close>. The argument is what \<open>malloc\<close> returns: \<open>None\<close> for \<open>NULL\<close>,
  otherwise the address and the content of the field the function leaves uninitialised
  (\<open>timer_id\<close>). \<open>repeat_count = -1\<close> is the conversion of \<open>-1\<close> to \<open>uint32_t\<close>.
\<close>

fun hs_timer_create :: "(ptr \<times> timer_t) option \<Rightarrow> 'e world \<Rightarrow> ptr \<times> 'e world" where
  "hs_timer_create None w = (NULL, w)"
| "hs_timer_create (Some (p, junk)) w =
     (p, w\<lparr>heap := (heap w)(p \<mapsto>
            \<lparr>timer_id = junk, status = E_HS_TIMER_STATUS_CREATED, timer_cb = NULL,
             repeat_count = - 1, timeout_ms = 0, user_data = NULL\<rparr>)\<rparr>)"

definition hs_timer_init ::
    "ptr \<Rightarrow> hs_timer_cb \<Rightarrow> u32 \<Rightarrow> u32 \<Rightarrow> ptr \<Rightarrow> 'e world \<Rightarrow> (int \<times> 'e world) option" where
  "hs_timer_init hs_timer cb rc tmo ud w =
     (if hs_timer = NULL then Some (-1, w)
      else case heap w hs_timer of
        None \<Rightarrow> None
      | Some t \<Rightarrow>
          let w1 = (if status t \<noteq> E_HS_TIMER_STATUS_CREATED then timer_delete (timer_id t) w
                    else w)
          in case timer_create w1 of (r, tid, w2) \<Rightarrow>
            if r = -1 then Some (-3, w2)
            else
              let t1 = t\<lparr>timer_id := tid\<rparr>;
                  w3 = w2\<lparr>heap := (heap w2)(hs_timer \<mapsto> t1)\<rparr>
              in case hs_timer_ms_to_timespec_one_shot tmo (Some itimerspec_zero) of
                (r1, out) \<Rightarrow>
                  if r1 \<noteq> 0 then Some (-4, timer_delete (timer_id t1) w3)
                  else case timer_settime (timer_id t1) (local_after itimerspec_zero out) w3 of
                    (r2, w4) \<Rightarrow>
                      if r2 = -1 then Some (-5, timer_delete (timer_id t1) w4)
                      else Some (0, w4\<lparr>heap := (heap w4)(hs_timer \<mapsto>
                             t1\<lparr>status := E_HS_TIMER_STATUS_RUNNING, timer_cb := cb,
                                repeat_count := rc, timeout_ms := tmo, user_data := ud\<rparr>)\<rparr>))"

definition hs_timer_destroy :: "ptr \<Rightarrow> 'e world \<Rightarrow> (int \<times> 'e world) option" where
  "hs_timer_destroy hs_timer w =
     (if hs_timer = NULL then Some (-1, w)
      else case heap w hs_timer of
        None \<Rightarrow> None
      | Some t \<Rightarrow>
          (case status t of
             E_HS_TIMER_STATUS_CREATED \<Rightarrow>
               Some (0, free hs_timer (pthread_mutex_destroy hs_timer w))
           | E_HS_TIMER_STATUS_RUNNING \<Rightarrow>
               Some (0, w\<lparr>heap := (heap w)(hs_timer \<mapsto>
                      t\<lparr>status := E_HS_TIMER_STATUS_REQUEST_DESTROY\<rparr>)\<rparr>)
           | E_HS_TIMER_STATUS_PAUSED \<Rightarrow>
               Some (0, free hs_timer (pthread_mutex_destroy hs_timer
                      (timer_delete (timer_id t) w)))
           | E_HS_TIMER_STATUS_REQUEST_DESTROY \<Rightarrow> Some (0, w)))"

text \<open>
  The \<open>default\<close> branch of the \<open>switch\<close> in \<open>hs_timer_destroy\<close> (return \<open>-2\<close>) has no
  counterpart: \<open>status\<close> only ever holds one of the four enumerators.
\<close>

definition hs_timer_set_cb :: "ptr \<Rightarrow> hs_timer_cb \<Rightarrow> 'e world \<Rightarrow> (int \<times> 'e world) option" where
  "hs_timer_set_cb hs_timer cb w =
     (if hs_timer = NULL then Some (-1, w)
      else case heap w hs_timer of
        None \<Rightarrow> None
      | Some t \<Rightarrow>
          if \<not> hs_timer_can_set_params (Some t) then Some (-2, w)
          else Some (0, w\<lparr>heap := (heap w)(hs_timer \<mapsto> t\<lparr>timer_cb := cb\<rparr>)\<rparr>))"

definition hs_timer_set_repeat_count :: "ptr \<Rightarrow> u32 \<Rightarrow> 'e world \<Rightarrow> (int \<times> 'e world) option" where
  "hs_timer_set_repeat_count hs_timer rc w =
     (if hs_timer = NULL then Some (-1, w)
      else case heap w hs_timer of
        None \<Rightarrow> None
      | Some t \<Rightarrow>
          if \<not> hs_timer_can_set_params (Some t) then Some (-2, w)
          else Some (0, w\<lparr>heap := (heap w)(hs_timer \<mapsto> t\<lparr>repeat_count := rc\<rparr>)\<rparr>))"

definition hs_timer_set_timeout :: "ptr \<Rightarrow> u32 \<Rightarrow> 'e world \<Rightarrow> (int \<times> 'e world) option" where
  "hs_timer_set_timeout hs_timer tmo w =
     (if hs_timer = NULL then Some (-1, w)
      else case heap w hs_timer of
        None \<Rightarrow> None
      | Some t \<Rightarrow>
          if \<not> hs_timer_can_set_params (Some t) then Some (-2, w)
          else case hs_timer_ms_to_timespec_one_shot tmo (Some itimerspec_zero) of
            (r1, out) \<Rightarrow>
              if r1 \<noteq> 0 then Some (-3, w)
              else case timer_settime (timer_id t) (local_after itimerspec_zero out) w of
                (r2, w1) \<Rightarrow>
                  if r2 = -1 then Some (-4, w1)
                  else Some (0, w1\<lparr>heap := (heap w1)(hs_timer \<mapsto> t\<lparr>timeout_ms := tmo\<rparr>)\<rparr>))"

definition hs_timer_set_user_data :: "ptr \<Rightarrow> ptr \<Rightarrow> 'e world \<Rightarrow> (int \<times> 'e world) option" where
  "hs_timer_set_user_data hs_timer ud w =
     (if hs_timer = NULL then Some (-1, w)
      else case heap w hs_timer of
        None \<Rightarrow> None
      | Some t \<Rightarrow>
          if \<not> hs_timer_can_set_params (Some t) then Some (-2, w)
          else Some (0, w\<lparr>heap := (heap w)(hs_timer \<mapsto> t\<lparr>user_data := ud\<rparr>)\<rparr>))"

text \<open>
  The getters leave the world as it is. The second component of the result of
  \<open>hs_timer_get_repeat_count\<close> and \<open>hs_timer_get_timeout\<close> is the value stored through
  the output pointer (\<open>None\<close> when nothing is stored); the output pointer itself is taken
  to be valid, the source does not test it.
\<close>

definition hs_timer_get_repeat_count :: "ptr \<Rightarrow> 'e world \<Rightarrow> (int \<times> u32 option) option" where
  "hs_timer_get_repeat_count hs_timer w =
     (if hs_timer = NULL then Some (-1, None)
      else case heap w hs_timer of
        None \<Rightarrow> None
      | Some t \<Rightarrow> Some (0, Some (repeat_count t)))"

definition hs_timer_get_timeout :: "ptr \<Rightarrow> 'e world \<Rightarrow> (int \<times> u32 option) option" where
  "hs_timer_get_timeout hs_timer w =
     (if hs_timer = NULL then Some (-1, None)
      else case heap w hs_timer of
        None \<Rightarrow> None
      | Some t \<Rightarrow> Some (0, Some (timeout_ms t)))"

definition hs_timer_get_user_data :: "ptr \<Rightarrow> 'e world \<Rightarrow> ptr option" where
  "hs_timer_get_user_data hs_timer w =
     (if hs_timer = NULL then Some NULL
      else case heap w hs_timer of
        None \<Rightarrow> None
      | Some t \<Rightarrow> Some (user_data t))"

text \<open>The \<open>itimerspec\<close> that \<open>hs_timer_ready\<close> builds: one nanosecond from now, no interval.\<close>

definition ready_spec :: itimerspec where
  "ready_spec =
     itimerspec_zero\<lparr>it_interval := \<lparr>tv_sec = 0, tv_nsec = 0\<rparr>,
                     it_value := \<lparr>tv_sec = 0, tv_nsec = 1\<rparr>\<rparr>"

definition hs_timer_ready :: "ptr \<Rightarrow> 'e world \<Rightarrow> (int \<times> 'e world) option" where
  "hs_timer_ready hs_timer w =
     (if hs_timer = NULL then Some (-1, w)
      else case heap w hs_timer of
        None \<Rightarrow> None
      | Some t \<Rightarrow>
          if status t \<noteq> E_HS_TIMER_STATUS_RUNNING \<and> status t \<noteq> E_HS_TIMER_STATUS_PAUSED
          then Some (-2, w)
          else case timer_settime (timer_id t) ready_spec w of
            (r, w1) \<Rightarrow>
              if r = -1 then Some (-3, w1)
              else Some (0, w1\<lparr>heap := (heap w1)(hs_timer \<mapsto>
                     t\<lparr>status := E_HS_TIMER_STATUS_RUNNING\<rparr>)\<rparr>))"

definition hs_timer_pause :: "ptr \<Rightarrow> 'e world \<Rightarrow> (int \<times> 'e world) option" where
  "hs_timer_pause hs_timer w =
     (if hs_timer = NULL then Some (-1, w)
      else case heap w hs_timer of
        None \<Rightarrow> None
      | Some t \<Rightarrow>
          if status t \<noteq> E_HS_TIMER_STATUS_RUNNING \<and> status t \<noteq> E_HS_TIMER_STATUS_PAUSED
          then Some (-2, w)
          else case timer_settime (timer_id t) itimerspec_zero w of
            (r, w1) \<Rightarrow>
              if r = -1 then Some (-3, w1)
              else Some (0, w1\<lparr>heap := (heap w1)(hs_timer \<mapsto>
                     t\<lparr>status := E_HS_TIMER_STATUS_PAUSED\<rparr>)\<rparr>))"

definition hs_timer_resume :: "ptr \<Rightarrow> 'e world \<Rightarrow> (int \<times> 'e world) option" where
  "hs_timer_resume hs_timer w =
     (if hs_timer = NULL then Some (-1, w)
      else case heap w hs_timer of
        None \<Rightarrow> None
      | Some t \<Rightarrow>
          if status t \<noteq> E_HS_TIMER_STATUS_PAUSED then Some (-2, w)
          else case hs_timer_ms_to_timespec_one_shot (timeout_ms t) (Some itimerspec_zero) of
            (r1, out) \<Rightarrow>
              if r1 \<noteq> 0 then Some (-3, w)
              else case timer_settime (timer_id t) (local_after itimerspec_zero out) w of
                (r2, w1) \<Rightarrow>
                  if r2 = -1 then Some (-4, w1)
                  else Some (0, w1\<lparr>heap := (heap w1)(hs_timer \<mapsto>
                         t\<lparr>status := E_HS_TIMER_STATUS_RUNNING\<rparr>)\<rparr>))"

definition hs_timer_is_paused :: "ptr \<Rightarrow> 'e world \<Rightarrow> bool option" where
  "hs_timer_is_paused hs_timer w =
     (if hs_timer = NULL then Some False
      else case heap w hs_timer of
        None \<Rightarrow> None
      | Some t \<Rightarrow> Some (status t = E_HS_TIMER_STATUS_PAUSED))"

section \<open>The firing handler\<close>

text \<open>
  \<open>hs_timer_thread\<close> runs on the notification thread of the alarm service. It is split
  where the source releases and takes the mutex again around the user's callback:
  \<open>hs_timer_thread_enter\<close> is the first locked section (lines 106 to 129),
  \<open>hs_timer_thread_call\<close> the unlocked call of the callback (lines 132 to 135) and
  \<open>hs_timer_thread_leave\<close> the second locked section (lines 138 to 163).
  A callback is code of the application: \<open>prog c\<close> is what the function at address \<open>c\<close>
  does to the world when called with a timer handle.
\<close>

type_synonym 'e prog = "hs_timer_cb \<Rightarrow> ptr \<Rightarrow> 'e world \<Rightarrow> 'e world"

text \<open>The four calls that end both teardown branches of the handler.\<close>

definition hs_timer_teardown :: "ptr \<Rightarrow> hs_timer \<Rightarrow> 'e world \<Rightarrow> 'e world" where
  "hs_timer_teardown hs_timer t w =
     free hs_timer (pthread_mutex_destroy hs_timer (timer_delete (timer_id t) w))"

text \<open>The result is \<open>Inl\<close> when the handler has returned, \<open>Inr\<close> when it goes on to the callback.\<close>

definition hs_timer_thread_enter :: "ptr \<Rightarrow> 'e world \<Rightarrow> ('e world + 'e world) option" where
  "hs_timer_thread_enter hs_timer w =
     (case heap w hs_timer of
        None \<Rightarrow> None
      | Some t \<Rightarrow>
          if status t = E_HS_TIMER_STATUS_REQUEST_DESTROY
          then Some (Inl (hs_timer_teardown hs_timer t w))
          else
            let t1 =
              (if repeat_count t > 0 \<and> repeat_count t < UINT32_MAX then
                 let t' = t\<lparr>repeat_count := repeat_count t - 1\<rparr>
                 in if repeat_count t' = 0
                    then t'\<lparr>status := E_HS_TIMER_STATUS_REQUEST_DESTROY\<rparr> else t'
               else t)
            in Some (Inr (w\<lparr>heap := (heap w)(hs_timer \<mapsto> t1)\<rparr>)))"

definition hs_timer_thread_call :: "'e prog \<Rightarrow> ptr \<Rightarrow> 'e world \<Rightarrow> 'e world option" where
  "hs_timer_thread_call prog hs_timer w =
     (case heap w hs_timer of
        None \<Rightarrow> None
      | Some t \<Rightarrow>
          if timer_cb t \<noteq> NULL
          then Some (prog (timer_cb t) hs_timer
                 (w\<lparr>trace := trace w @ [EvCallback (timer_cb t) hs_timer]\<rparr>))
          else Some w)"

definition hs_timer_thread_leave :: "ptr \<Rightarrow> 'e world \<Rightarrow> 'e world option" where
  "hs_timer_thread_leave hs_timer w =
     (case heap w hs_timer of
        None \<Rightarrow> None
      | Some t \<Rightarrow>
          if status t = E_HS_TIMER_STATUS_REQUEST_DESTROY \<or> repeat_count t = 0
          then Some (hs_timer_teardown hs_timer t w)
          else if status t = E_HS_TIMER_STATUS_RUNNING \<and> repeat_count t \<noteq> 0 then
            (case hs_timer_ms_to_timespec_one_shot (timeout_ms t) (Some itimerspec_zero) of
               (r, out) \<Rightarrow>
                 if r \<noteq> 0 then Some w
                 else Some (snd (timer_settime (timer_id t) (local_after itimerspec_zero out) w)))
          else Some w)"

definition hs_timer_thread :: "'e prog \<Rightarrow> ptr \<Rightarrow> 'e world \<Rightarrow> 'e world option" where
  "hs_timer_thread prog hs_timer w =
     (if hs_timer = NULL then Some w
      else case hs_timer_thread_enter hs_timer w of
        None \<Rightarrow> None
      | Some (Inl w1) \<Rightarrow> Some w1
      | Some (Inr w1) \<Rightarrow>
          (case hs_timer_thread_call prog hs_timer w1 of
             None \<Rightarrow> None
           | Some w2 \<Rightarrow> hs_timer_thread_leave hs_timer w2))"

section \<open>The alarm service runs the handler\<close>




section \<open>Vocabulary of the properties\<close>


text \<open>The fields of a timer that its owner set and can read back, with its status.\<close>

definition visible :: "hs_timer \<Rightarrow> hs_timer_status \<times> hs_timer_cb \<times> u32 \<times> u32 \<times> ptr" where
  "visible t = (status t, timer_cb t, repeat_count t, timeout_ms t, user_data t)"

text \<open>The alarms left once \<open>hs_timer_init\<close> has closed the alarm of a timer initialised before.\<close>

definition alarms_after_close :: "hs_timer \<Rightarrow> 'e world \<Rightarrow> (timer_t \<rightharpoonup> itimerspec)" where
  "alarms_after_close t w =
     (if status t \<noteq> E_HS_TIMER_STATUS_CREATED then (alarms w)(timer_id t := None)
      else alarms w)"

text \<open>
  The \<open>itimerspec\<close> that \<open>hs_timer_init\<close>, \<open>hs_timer_set_timeout\<close>, \<open>hs_timer_resume\<close>
  and the handler pass to \<open>timer_settime\<close> for a timeout: the local \<open>timer_spec\<close> after
  the conversion.
\<close>

definition timeout_spec :: "u32 \<Rightarrow> itimerspec" where
  "timeout_spec tmo =
     local_after itimerspec_zero
       (snd (hs_timer_ms_to_timespec_one_shot tmo (Some itimerspec_zero)))"

subsection \<open>Concrete worlds\<close>

text \<open>
  A world with one timer at address 16 and a callback at address 1 that counts its calls
  in the application's memory. \<open>boot_world\<close> is the world before \<open>hs_timer_create\<close>,
  the others are reached from it through the public functions (lemmas \<open>reach_created\<close>
  to \<open>reach_pending\<close> below).
\<close>

definition boot_world :: "nat world" where
  "boot_world =
     \<lparr>heap = Map.empty, alarms = Map.empty, next_timer = 7, create_fails = False,
      settime_fails = False, trace = [], ext = 0\<rparr>"

definition created_world :: "nat world" where
  "created_world =
     boot_world\<lparr>heap := [16 \<mapsto>
        \<lparr>timer_id = 0, status = E_HS_TIMER_STATUS_CREATED, timer_cb = NULL,
         repeat_count = - 1, timeout_ms = 0, user_data = NULL\<rparr>]\<rparr>"

definition demo_timer :: "hs_timer_status \<Rightarrow> hs_timer" where
  "demo_timer st =
     \<lparr>timer_id = 7, status = st, timer_cb = 1, repeat_count = 3, timeout_ms = 500,
      user_data = 42\<rparr>"

definition half_second :: itimerspec where
  "half_second =
     \<lparr>it_interval = \<lparr>tv_sec = 0, tv_nsec = 0\<rparr>,
      it_value = \<lparr>tv_sec = 0, tv_nsec = 500000000\<rparr>\<rparr>"

definition demo_world :: "hs_timer_status \<Rightarrow> itimerspec \<Rightarrow> nat world" where
  "demo_world st spec =
     \<lparr>heap = [16 \<mapsto> demo_timer st], alarms = [7 \<mapsto> spec], next_timer = 8,
      create_fails = False, settime_fails = False, trace = [], ext = 0\<rparr>"

text \<open>A paused timer that stores other values than those the setters are tried with.\<close>

definition stale_timer :: hs_timer where
  "stale_timer =
     \<lparr>timer_id = 7, status = E_HS_TIMER_STATUS_PAUSED, timer_cb = 1, repeat_count = 7,
      timeout_ms = 20, user_data = 9\<rparr>"

definition stale_world :: "nat world" where
  "stale_world =
     \<lparr>heap = [16 \<mapsto> stale_timer], alarms = [7 \<mapsto> itimerspec_zero], next_timer = 8,
      create_fails = False, settime_fails = False, trace = [], ext = 0\<rparr>"

text \<open>The same world with an operating system that refuses \<open>timer_settime\<close>.\<close>

definition refusing_world :: "hs_timer_status \<Rightarrow> nat world" where
  "refusing_world st = (demo_world st itimerspec_zero)\<lparr>settime_fails := True\<rparr>"

definition counting_prog :: "nat prog" where
  "counting_prog c p v = v\<lparr>ext := Suc (ext v)\<rparr>"

section \<open>Basic facts\<close>

lemmas os_defs =
  timer_create_def timer_settime_def timer_delete_def pthread_mutex_destroy_def free_def

lemmas demo_defs =
  boot_world_def created_world_def demo_timer_def half_second_def demo_world_def
  refusing_world_def

lemmas stale_defs = stale_timer_def stale_world_def


lemma reach_created: "hs_timer_create (Some (16, 0)) boot_world = (16, created_world)"
  by (simp add: demo_defs)


lemma reach_paused:
  "hs_timer_pause 16 (demo_world E_HS_TIMER_STATUS_RUNNING half_second) =
     Some (0, demo_world E_HS_TIMER_STATUS_PAUSED itimerspec_zero)"
  by (simp add: demo_defs hs_timer_pause_def os_defs)

lemma reach_pending:
  "hs_timer_destroy 16 (demo_world E_HS_TIMER_STATUS_RUNNING half_second) =
     Some (0, demo_world E_HS_TIMER_STATUS_REQUEST_DESTROY half_second)"
  by (simp add: demo_defs hs_timer_destroy_def)

lemma settime_frame:
  "heap (snd (timer_settime tid s w)) = heap w"
  "trace (snd (timer_settime tid s w)) = trace w"
  "ext (snd (timer_settime tid s w)) = ext w"
  "create_fails (snd (timer_settime tid s w)) = create_fails w"
  "settime_fails (snd (timer_settime tid s w)) = settime_fails w"
  "next_timer (snd (timer_settime tid s w)) = next_timer w"
  "(alarms (snd (timer_settime tid s w)))(tid := None) = (alarms w)(tid := None)"
  by (simp_all add: timer_settime_def)

lemma uint32_max_minus_one: "UINT32_MAX = - 1"
  by (simp add: UINT32_MAX_def)

lemma word_facts:
  fixes rc :: u32
  assumes "rc \<noteq> 0" and "rc \<noteq> UINT32_MAX"
  shows "0 < rc" and "rc < UINT32_MAX" and "unat (rc - 1) = unat rc - 1" and "0 < unat rc"
proof -
  show "0 < rc" using assms(1) by (simp add: word_neq_0_conv)
  have "rc \<le> UINT32_MAX" by (simp add: uint32_max_minus_one)
  then show "rc < UINT32_MAX" using assms(2) by (simp add: less_le)
  show "unat (rc - 1) = unat rc - 1" using assms(1) by (rule unat_minus_one)
  show "0 < unat rc" using assms(1) by (simp add: unat_gt_0)
qed

section \<open>Conversion of milliseconds\<close>

lemma ms_nsec_exact:
  "uint ((ms mod 1000) * 1000000 :: u32) = (uint ms mod 1000) * 1000000"
proof -
  have m: "uint (ms mod 1000) = uint ms mod 1000"
    by (simp add: uint_mod)
  have "uint ms mod 1000 < 1000" "0 \<le> uint ms mod 1000"
    by simp_all
  then have b: "uint (ms mod 1000) * uint (1000000 :: u32) < 2 ^ LENGTH(32)"
    using m by simp
  have "uint ((ms mod 1000) * 1000000) = uint (ms mod 1000) * uint (1000000 :: u32)"
    using b by (simp only: uint_mult_lem [THEN iffD1])
  then show ?thesis
    using m by simp
qed

text \<open>
  C10. For every output struct that is not \<open>NULL\<close> and every 32-bit \<open>ms\<close>,
  \<open>hs_timer_ms_to_timespec_one_shot\<close> returns 0 and writes \<open>it_interval = {0, 0}\<close>,
  \<open>it_value.tv_sec = ms / 1000\<close> and \<open>it_value.tv_nsec = (ms mod 1000) * 1000000\<close>, the
  values being those of exact integer arithmetic (the 32-bit product does not wrap); for
  \<open>ms = 0\<close> the struct is all zero, which for \<open>timer_settime\<close> means disarming.
\<close>

theorem C10_ms_to_timespec:
  "hs_timer_ms_to_timespec_one_shot ms (Some out) =
     (0, Some \<lparr>it_interval = \<lparr>tv_sec = 0, tv_nsec = 0\<rparr>,
              it_value = \<lparr>tv_sec = int (unat ms div 1000),
                          tv_nsec = int ((unat ms mod 1000) * 1000000)\<rparr>\<rparr>)
   \<and> int ((unat ms mod 1000) * 1000000) < 1000000000
   \<and> hs_timer_ms_to_timespec_one_shot 0 (Some out) = (0, Some itimerspec_zero)
   \<and> \<not> alarm_armed (local_after out (snd (hs_timer_ms_to_timespec_one_shot 0 (Some out))))"
proof -
  have s: "uint (ms div 1000) = int (unat ms div 1000)"
    by (simp add: uint_div zdiv_int)
  have n: "uint ((ms mod 1000) * 1000000) = int ((unat ms mod 1000) * 1000000)"
    by (simp add: ms_nsec_exact zmod_int)
  have lt: "unat ms mod 1000 < 1000"
    by simp
  have r: "int ((unat ms mod 1000) * 1000000) < 1000000000"
    using lt by simp
  show ?thesis
    using s n r by (simp add: itimerspec_zero_def alarm_armed_def)
qed

section \<open>Requests on a timer that is being destroyed\<close>

text \<open>
  C4. On a timer whose status is \<open>REQUEST_DESTROY\<close> (the spec's PendingDestroy), each of
  \<open>hs_timer_set_cb\<close>, \<open>hs_timer_set_repeat_count\<close>, \<open>hs_timer_set_timeout\<close>,
  \<open>hs_timer_set_user_data\<close>, \<open>hs_timer_pause\<close>, \<open>hs_timer_resume\<close> and
  \<open>hs_timer_ready\<close> returns \<open>-2\<close> (invalid state) and leaves the whole world, so every
  field of the timer and every alarm, as it was.
\<close>

theorem C4_pending_destroy_rejects:
  assumes "hs_timer \<noteq> NULL" and "heap w hs_timer = Some t"
    and "status t = E_HS_TIMER_STATUS_REQUEST_DESTROY"
  shows "hs_timer_set_cb hs_timer cb w = Some (-2, w)
       \<and> hs_timer_set_repeat_count hs_timer rc w = Some (-2, w)
       \<and> hs_timer_set_timeout hs_timer tmo w = Some (-2, w)
       \<and> hs_timer_set_user_data hs_timer ud w = Some (-2, w)
       \<and> hs_timer_pause hs_timer w = Some (-2, w)
       \<and> hs_timer_resume hs_timer w = Some (-2, w)
       \<and> hs_timer_ready hs_timer w = Some (-2, w)"
  using assms
  by (simp add: hs_timer_set_cb_def hs_timer_set_repeat_count_def hs_timer_set_timeout_def
      hs_timer_set_user_data_def hs_timer_pause_def hs_timer_resume_def hs_timer_ready_def)

theorem C4_pending_destroy_rejects_witness:
  "heap (demo_world E_HS_TIMER_STATUS_REQUEST_DESTROY half_second) 16 =
     Some (demo_timer E_HS_TIMER_STATUS_REQUEST_DESTROY)
   \<and> hs_timer_set_cb 16 2 (demo_world E_HS_TIMER_STATUS_REQUEST_DESTROY half_second) =
     Some (-2, demo_world E_HS_TIMER_STATUS_REQUEST_DESTROY half_second)
   \<and> hs_timer_set_repeat_count 16 5 (demo_world E_HS_TIMER_STATUS_REQUEST_DESTROY half_second) =
     Some (-2, demo_world E_HS_TIMER_STATUS_REQUEST_DESTROY half_second)
   \<and> hs_timer_set_timeout 16 20 (demo_world E_HS_TIMER_STATUS_REQUEST_DESTROY half_second) =
     Some (-2, demo_world E_HS_TIMER_STATUS_REQUEST_DESTROY half_second)
   \<and> hs_timer_set_user_data 16 43 (demo_world E_HS_TIMER_STATUS_REQUEST_DESTROY half_second) =
     Some (-2, demo_world E_HS_TIMER_STATUS_REQUEST_DESTROY half_second)
   \<and> hs_timer_pause 16 (demo_world E_HS_TIMER_STATUS_REQUEST_DESTROY half_second) =
     Some (-2, demo_world E_HS_TIMER_STATUS_REQUEST_DESTROY half_second)
   \<and> hs_timer_resume 16 (demo_world E_HS_TIMER_STATUS_REQUEST_DESTROY half_second) =
     Some (-2, demo_world E_HS_TIMER_STATUS_REQUEST_DESTROY half_second)
   \<and> hs_timer_ready 16 (demo_world E_HS_TIMER_STATUS_REQUEST_DESTROY half_second) =
     Some (-2, demo_world E_HS_TIMER_STATUS_REQUEST_DESTROY half_second)"
proof -
  have h: "heap (demo_world E_HS_TIMER_STATUS_REQUEST_DESTROY half_second) 16 =
      Some (demo_timer E_HS_TIMER_STATUS_REQUEST_DESTROY)"
    by (simp add: demo_world_def)
  have s: "status (demo_timer E_HS_TIMER_STATUS_REQUEST_DESTROY) =
      E_HS_TIMER_STATUS_REQUEST_DESTROY"
    by (simp add: demo_timer_def)
  have n: "(16::nat) \<noteq> NULL"
    by simp
  show ?thesis
    using h C4_pending_destroy_rejects [OF n h s, of 2 5 20 43] by simp
qed

section \<open>Destroying\<close>

text \<open>
  C6. For every handle that is not \<open>NULL\<close> and points to a timer, \<open>hs_timer_destroy\<close>
  returns 0. From \<open>CREATED\<close> it destroys the mutex and frees the object before it
  returns; from \<open>PAUSED\<close> it deletes the alarm as well; from \<open>RUNNING\<close> it only sets the
  status to \<open>REQUEST_DESTROY\<close>; from \<open>REQUEST_DESTROY\<close> it changes nothing, so that a
  second call after a destroy from \<open>RUNNING\<close> returns 0 again and changes nothing.
\<close>

theorem C6_destroy_succeeds:
  assumes "hs_timer \<noteq> NULL" and "heap w hs_timer = Some t"
  shows "(\<exists>w'. hs_timer_destroy hs_timer w = Some (0, w'))
       \<and> (status t = E_HS_TIMER_STATUS_CREATED \<longrightarrow>
            hs_timer_destroy hs_timer w =
              Some (0, w\<lparr>heap := (heap w)(hs_timer := None),
                         trace := trace w @ [EvMutexDestroy hs_timer]\<rparr>))
       \<and> (status t = E_HS_TIMER_STATUS_PAUSED \<longrightarrow>
            hs_timer_destroy hs_timer w =
              Some (0, w\<lparr>heap := (heap w)(hs_timer := None),
                         alarms := (alarms w)(timer_id t := None),
                         trace := trace w @ [EvMutexDestroy hs_timer]\<rparr>))
       \<and> (status t = E_HS_TIMER_STATUS_RUNNING \<longrightarrow>
            hs_timer_destroy hs_timer w =
              Some (0, w\<lparr>heap := (heap w)(hs_timer \<mapsto>
                           t\<lparr>status := E_HS_TIMER_STATUS_REQUEST_DESTROY\<rparr>)\<rparr>)
            \<and> hs_timer_destroy hs_timer
                 (w\<lparr>heap := (heap w)(hs_timer \<mapsto>
                           t\<lparr>status := E_HS_TIMER_STATUS_REQUEST_DESTROY\<rparr>)\<rparr>) =
              Some (0, w\<lparr>heap := (heap w)(hs_timer \<mapsto>
                           t\<lparr>status := E_HS_TIMER_STATUS_REQUEST_DESTROY\<rparr>)\<rparr>))
       \<and> (status t = E_HS_TIMER_STATUS_REQUEST_DESTROY \<longrightarrow>
            hs_timer_destroy hs_timer w = Some (0, w))"
  using assms
  by (cases "status t") (simp_all add: hs_timer_destroy_def os_defs)

theorem C6_destroy_succeeds_witness:
  "hs_timer_destroy 16 created_world =
     Some (0, boot_world\<lparr>trace := [EvMutexDestroy 16]\<rparr>)
   \<and> hs_timer_destroy 16 (demo_world E_HS_TIMER_STATUS_PAUSED itimerspec_zero) =
     Some (0, boot_world\<lparr>next_timer := 8, trace := [EvMutexDestroy 16]\<rparr>)
   \<and> hs_timer_destroy 16 (demo_world E_HS_TIMER_STATUS_RUNNING half_second) =
     Some (0, demo_world E_HS_TIMER_STATUS_REQUEST_DESTROY half_second)
   \<and> hs_timer_destroy 16 (demo_world E_HS_TIMER_STATUS_REQUEST_DESTROY half_second) =
     Some (0, demo_world E_HS_TIMER_STATUS_REQUEST_DESTROY half_second)"
proof -
  have n: "(16::nat) \<noteq> NULL"
    by simp
  have c: "heap created_world 16 =
      Some \<lparr>timer_id = 0, status = E_HS_TIMER_STATUS_CREATED, timer_cb = NULL,
            repeat_count = - 1, timeout_ms = 0, user_data = NULL\<rparr>"
    by (simp add: demo_defs)
  have d: "heap (demo_world st spec) 16 = Some (demo_timer st)" for st spec
    by (simp add: demo_world_def)
  show ?thesis
    using C6_destroy_succeeds [OF n c]
      C6_destroy_succeeds [OF n d, of E_HS_TIMER_STATUS_PAUSED itimerspec_zero]
      C6_destroy_succeeds [OF n d, of E_HS_TIMER_STATUS_RUNNING half_second]
      C6_destroy_succeeds [OF n d, of E_HS_TIMER_STATUS_REQUEST_DESTROY half_second]
    by (simp add: demo_defs)
qed

section \<open>Setters and getters\<close>

text \<open>
  C8. On a timer whose status is not \<open>REQUEST_DESTROY\<close>, \<open>hs_timer_set_repeat_count\<close>
  and \<open>hs_timer_set_user_data\<close> return 0 and store the value they are given, whatever
  was stored before, and so does \<open>hs_timer_set_timeout\<close> when \<open>timer_settime\<close>
  accepts the converted timeout; they change no other field of the timer. Whenever a
  setter returns 0, the matching getter, called on the world the setter left, returns 0
  and the value just set: \<open>hs_timer_get_timeout\<close> after \<open>hs_timer_set_timeout\<close>,
  \<open>hs_timer_get_repeat_count\<close> after \<open>hs_timer_set_repeat_count\<close>,
  \<open>hs_timer_get_user_data\<close> after \<open>hs_timer_set_user_data\<close>; in particular for the
  values 500, 3 and any \<open>x\<close>.
\<close>

theorem C8_set_get_roundtrip:
  "(hs_timer_set_timeout hs_timer tmo w = Some (0, w1) \<longrightarrow>
      hs_timer_get_timeout hs_timer w1 = Some (0, Some tmo))
 \<and> (hs_timer_set_repeat_count hs_timer rc w = Some (0, w2) \<longrightarrow>
      hs_timer_get_repeat_count hs_timer w2 = Some (0, Some rc))
 \<and> (hs_timer_set_user_data hs_timer ud w = Some (0, w3) \<longrightarrow>
      hs_timer_get_user_data hs_timer w3 = Some ud)
 \<and> (hs_timer \<noteq> NULL \<and> heap w hs_timer = Some t
      \<and> status t \<noteq> E_HS_TIMER_STATUS_REQUEST_DESTROY \<longrightarrow>
      hs_timer_set_repeat_count hs_timer rc w =
        Some (0, w\<lparr>heap := (heap w)(hs_timer \<mapsto> t\<lparr>repeat_count := rc\<rparr>)\<rparr>)
      \<and> hs_timer_set_user_data hs_timer ud w =
        Some (0, w\<lparr>heap := (heap w)(hs_timer \<mapsto> t\<lparr>user_data := ud\<rparr>)\<rparr>)
      \<and> (fst (timer_settime (timer_id t) (timeout_spec tmo) w) \<noteq> -1 \<longrightarrow>
           hs_timer_set_timeout hs_timer tmo w =
             Some (0, w\<lparr>alarms := (alarms w)(timer_id t \<mapsto> timeout_spec tmo),
                        heap := (heap w)(hs_timer \<mapsto> t\<lparr>timeout_ms := tmo\<rparr>)\<rparr>)))"
proof -
  have get: "(hs_timer_set_timeout hs_timer tmo w = Some (0, w1) \<longrightarrow>
      hs_timer_get_timeout hs_timer w1 = Some (0, Some tmo))
 \<and> (hs_timer_set_repeat_count hs_timer rc w = Some (0, w2) \<longrightarrow>
      hs_timer_get_repeat_count hs_timer w2 = Some (0, Some rc))
 \<and> (hs_timer_set_user_data hs_timer ud w = Some (0, w3) \<longrightarrow>
      hs_timer_get_user_data hs_timer w3 = Some ud)"
    by (auto simp: hs_timer_set_timeout_def hs_timer_get_timeout_def
        hs_timer_set_repeat_count_def hs_timer_get_repeat_count_def
        hs_timer_set_user_data_def hs_timer_get_user_data_def timer_settime_def
        split: if_splits option.splits prod.splits)
  have set: "hs_timer_set_repeat_count hs_timer rc w =
        Some (0, w\<lparr>heap := (heap w)(hs_timer \<mapsto> t\<lparr>repeat_count := rc\<rparr>)\<rparr>)
      \<and> hs_timer_set_user_data hs_timer ud w =
        Some (0, w\<lparr>heap := (heap w)(hs_timer \<mapsto> t\<lparr>user_data := ud\<rparr>)\<rparr>)
      \<and> (fst (timer_settime (timer_id t) (timeout_spec tmo) w) \<noteq> -1 \<longrightarrow>
           hs_timer_set_timeout hs_timer tmo w =
             Some (0, w\<lparr>alarms := (alarms w)(timer_id t \<mapsto> timeout_spec tmo),
                        heap := (heap w)(hs_timer \<mapsto> t\<lparr>timeout_ms := tmo\<rparr>)\<rparr>))"
    if "hs_timer \<noteq> NULL" and "heap w hs_timer = Some t"
      and "status t \<noteq> E_HS_TIMER_STATUS_REQUEST_DESTROY"
    using that
    by (cases "status t")
       (simp_all add: hs_timer_set_repeat_count_def hs_timer_set_user_data_def
          hs_timer_set_timeout_def timer_settime_def timeout_spec_def)
  show ?thesis
    using get set by blast
qed

theorem C8_set_get_roundtrip_witness:
  "hs_timer_get_timeout 16 stale_world = Some (0, Some 20)
   \<and> hs_timer_get_repeat_count 16 stale_world = Some (0, Some 7)
   \<and> hs_timer_get_user_data 16 stale_world = Some 9
   \<and> hs_timer_set_timeout 16 500 stale_world =
       Some (0, stale_world\<lparr>alarms := [7 \<mapsto> half_second],
                  heap := [16 \<mapsto> stale_timer\<lparr>timeout_ms := 500\<rparr>]\<rparr>)
   \<and> hs_timer_get_timeout 16
       (stale_world\<lparr>alarms := [7 \<mapsto> half_second],
                  heap := [16 \<mapsto> stale_timer\<lparr>timeout_ms := 500\<rparr>]\<rparr>) = Some (0, Some 500)
   \<and> hs_timer_set_repeat_count 16 3 stale_world =
       Some (0, stale_world\<lparr>heap := [16 \<mapsto> stale_timer\<lparr>repeat_count := 3\<rparr>]\<rparr>)
   \<and> hs_timer_get_repeat_count 16
       (stale_world\<lparr>heap := [16 \<mapsto> stale_timer\<lparr>repeat_count := 3\<rparr>]\<rparr>) = Some (0, Some 3)
   \<and> hs_timer_set_user_data 16 42 stale_world =
       Some (0, stale_world\<lparr>heap := [16 \<mapsto> stale_timer\<lparr>user_data := 42\<rparr>]\<rparr>)
   \<and> hs_timer_get_user_data 16
       (stale_world\<lparr>heap := [16 \<mapsto> stale_timer\<lparr>user_data := 42\<rparr>]\<rparr>) = Some 42"
proof -
  let ?w1 = "stale_world\<lparr>alarms := [7 \<mapsto> half_second],
                  heap := [16 \<mapsto> stale_timer\<lparr>timeout_ms := 500\<rparr>]\<rparr>"
  let ?w2 = "stale_world\<lparr>heap := [16 \<mapsto> stale_timer\<lparr>repeat_count := 3\<rparr>]\<rparr>"
  let ?w3 = "stale_world\<lparr>heap := [16 \<mapsto> stale_timer\<lparr>user_data := 42\<rparr>]\<rparr>"
  note inst = C8_set_get_roundtrip [of 16 500 stale_world ?w1 3 ?w2 42 ?w3 stale_timer]
  have pre: "(16::nat) \<noteq> NULL \<and> heap stale_world 16 = Some stale_timer
      \<and> status stale_timer \<noteq> E_HS_TIMER_STATUS_REQUEST_DESTROY"
    by (simp add: stale_defs)
  have ok: "fst (timer_settime (timer_id stale_timer) (timeout_spec 500) stale_world) \<noteq> -1"
    by (simp add: stale_defs timer_settime_def)
  have sp: "timeout_spec 500 = half_second"
    by (simp add: timeout_spec_def itimerspec_zero_def half_second_def)
  have e1: "stale_world\<lparr>alarms := (alarms stale_world)(timer_id stale_timer \<mapsto> timeout_spec 500),
        heap := (heap stale_world)(16 \<mapsto> stale_timer\<lparr>timeout_ms := 500\<rparr>)\<rparr> = ?w1"
    by (simp add: sp) (simp add: stale_defs)
  have e2: "stale_world\<lparr>heap := (heap stale_world)(16 \<mapsto> stale_timer\<lparr>repeat_count := 3\<rparr>)\<rparr>
      = ?w2"
    by (simp add: stale_defs)
  have e3: "stale_world\<lparr>heap := (heap stale_world)(16 \<mapsto> stale_timer\<lparr>user_data := 42\<rparr>)\<rparr>
      = ?w3"
    by (simp add: stale_defs)
  have s1: "hs_timer_set_timeout 16 500 stale_world = Some (0, ?w1)"
    and s2: "hs_timer_set_repeat_count 16 3 stale_world = Some (0, ?w2)"
    and s3: "hs_timer_set_user_data 16 42 stale_world = Some (0, ?w3)"
    using inst pre ok unfolding e1 e2 e3 by blast+
  have g1: "hs_timer_get_timeout 16 ?w1 = Some (0, Some 500)"
    and g2: "hs_timer_get_repeat_count 16 ?w2 = Some (0, Some 3)"
    and g3: "hs_timer_get_user_data 16 ?w3 = Some 42"
    using inst s1 s2 s3 by blast+
  have old: "hs_timer_get_timeout 16 stale_world = Some (0, Some 20)"
    "hs_timer_get_repeat_count 16 stale_world = Some (0, Some 7)"
    "hs_timer_get_user_data 16 stale_world = Some 9"
    by (simp_all add: stale_defs hs_timer_get_timeout_def hs_timer_get_repeat_count_def
        hs_timer_get_user_data_def)
  show ?thesis
    using old s1 s2 s3 g1 g2 g3 by simp
qed

section \<open>Forcing the next firing\<close>

text \<open>
  C7, as the claim states it, fails: in status \<open>PAUSED\<close> (or \<open>RUNNING\<close>)
  \<open>hs_timer_ready\<close> does not succeed when \<open>timer_settime\<close> fails; it returns \<open>-3\<close>
  and the status stays as it was. This happens when the system refuses the call, and
  also on the running timer that a second \<open>hs_timer_init\<close> has left without an alarm
  because \<open>timer_create\<close> failed: there \<open>timer_settime\<close> fails for want of a timer.
\<close>

theorem C7_ready_counterexample:
  "heap (refusing_world E_HS_TIMER_STATUS_PAUSED) 16 = Some (demo_timer E_HS_TIMER_STATUS_PAUSED)
   \<and> status (demo_timer E_HS_TIMER_STATUS_PAUSED) = E_HS_TIMER_STATUS_PAUSED
   \<and> hs_timer_ready 16 (refusing_world E_HS_TIMER_STATUS_PAUSED) =
       Some (-3, refusing_world E_HS_TIMER_STATUS_PAUSED)
   \<and> hs_timer_init 16 1 3 500 42
       ((demo_world E_HS_TIMER_STATUS_RUNNING half_second)\<lparr>create_fails := True\<rparr>) =
       Some (-3, (demo_world E_HS_TIMER_STATUS_RUNNING half_second)
                   \<lparr>create_fails := True, alarms := Map.empty\<rparr>)
   \<and> heap ((demo_world E_HS_TIMER_STATUS_RUNNING half_second)
              \<lparr>create_fails := True, alarms := Map.empty\<rparr>) 16 =
       Some (demo_timer E_HS_TIMER_STATUS_RUNNING)
   \<and> status (demo_timer E_HS_TIMER_STATUS_RUNNING) = E_HS_TIMER_STATUS_RUNNING
   \<and> hs_timer_ready 16
       ((demo_world E_HS_TIMER_STATUS_RUNNING half_second)
          \<lparr>create_fails := True, alarms := Map.empty\<rparr>) =
       Some (-3, (demo_world E_HS_TIMER_STATUS_RUNNING half_second)
                   \<lparr>create_fails := True, alarms := Map.empty\<rparr>)"
  by (simp add: demo_defs hs_timer_ready_def hs_timer_init_def os_defs)

text \<open>
  C7, amended. For a timer in status \<open>RUNNING\<close> or \<open>PAUSED\<close>, \<open>hs_timer_ready\<close>
  succeeds whenever \<open>timer_settime\<close> does: it returns 0, programs the alarm with a delay
  of one nanosecond and no interval (an armed one-shot), sets the status to \<open>RUNNING\<close>
  and changes nothing else, so \<open>repeat_count\<close>, \<open>timeout_ms\<close>, \<open>timer_cb\<close> and
  \<open>user_data\<close> are as before. When \<open>timer_settime\<close> fails it returns \<open>-3\<close> and changes
  nothing. In every other status it returns \<open>-2\<close> and changes nothing.
\<close>

theorem C7_ready_frame:
  assumes "hs_timer \<noteq> NULL" and "heap w hs_timer = Some t"
  shows "(status t \<in> {E_HS_TIMER_STATUS_RUNNING, E_HS_TIMER_STATUS_PAUSED}
            \<and> fst (timer_settime (timer_id t) ready_spec w) \<noteq> -1 \<longrightarrow>
          hs_timer_ready hs_timer w =
            Some (0, w\<lparr>alarms := (alarms w)(timer_id t \<mapsto> ready_spec),
                       heap := (heap w)(hs_timer \<mapsto> t\<lparr>status := E_HS_TIMER_STATUS_RUNNING\<rparr>)\<rparr>))
       \<and> (status t \<in> {E_HS_TIMER_STATUS_RUNNING, E_HS_TIMER_STATUS_PAUSED}
            \<and> fst (timer_settime (timer_id t) ready_spec w) = -1 \<longrightarrow>
          hs_timer_ready hs_timer w = Some (-3, w))
       \<and> (status t \<notin> {E_HS_TIMER_STATUS_RUNNING, E_HS_TIMER_STATUS_PAUSED} \<longrightarrow>
          hs_timer_ready hs_timer w = Some (-2, w))
       \<and> alarm_armed ready_spec
       \<and> ready_spec = \<lparr>it_interval = \<lparr>tv_sec = 0, tv_nsec = 0\<rparr>,
                        it_value = \<lparr>tv_sec = 0, tv_nsec = 1\<rparr>\<rparr>"
  using assms
  by (auto simp: hs_timer_ready_def os_defs ready_spec_def itimerspec_zero_def alarm_armed_def)

theorem C7_ready_frame_witness:
  "hs_timer_ready 16 (demo_world E_HS_TIMER_STATUS_PAUSED itimerspec_zero) =
     Some (0, demo_world E_HS_TIMER_STATUS_RUNNING ready_spec)
   \<and> hs_timer_ready 16 (demo_world E_HS_TIMER_STATUS_RUNNING half_second) =
     Some (0, demo_world E_HS_TIMER_STATUS_RUNNING ready_spec)
   \<and> hs_timer_ready 16 (refusing_world E_HS_TIMER_STATUS_RUNNING) =
     Some (-3, refusing_world E_HS_TIMER_STATUS_RUNNING)
   \<and> hs_timer_ready 16 created_world = Some (-2, created_world)"
proof -
  have n: "(16::nat) \<noteq> NULL"
    by simp
  have c: "heap created_world 16 =
      Some \<lparr>timer_id = 0, status = E_HS_TIMER_STATUS_CREATED, timer_cb = NULL,
            repeat_count = - 1, timeout_ms = 0, user_data = NULL\<rparr>"
    by (simp add: demo_defs)
  have d: "heap (demo_world st spec) 16 = Some (demo_timer st)" for st spec
    by (simp add: demo_world_def)
  have r: "heap (refusing_world st) 16 = Some (demo_timer st)" for st
    by (simp add: refusing_world_def demo_world_def)
  show ?thesis
    using C7_ready_frame [OF n c]
      C7_ready_frame [OF n d, of E_HS_TIMER_STATUS_PAUSED itimerspec_zero]
      C7_ready_frame [OF n d, of E_HS_TIMER_STATUS_RUNNING half_second]
      C7_ready_frame [OF n r, of E_HS_TIMER_STATUS_RUNNING]
    by (simp add: demo_defs os_defs)
qed

section \<open>Initialising\<close>

text \<open>What \<open>hs_timer_init\<close> returns and leaves, for every valid handle.\<close>

lemma init_result:
  assumes "hs_timer \<noteq> NULL" and "heap w hs_timer = Some t"
  shows "hs_timer_init hs_timer cb rc tmo ud w =
     Some (if create_fails w then (-3, w\<lparr>alarms := alarms_after_close t w\<rparr>)
           else if settime_fails w then
             (-5, w\<lparr>heap := (heap w)(hs_timer \<mapsto> t\<lparr>timer_id := next_timer w\<rparr>),
                    alarms := (alarms_after_close t w)(next_timer w := None),
                    next_timer := Suc (next_timer w)\<rparr>)
           else
             (0, w\<lparr>heap := (heap w)(hs_timer \<mapsto>
                       t\<lparr>timer_id := next_timer w, status := E_HS_TIMER_STATUS_RUNNING,
                         timer_cb := cb, repeat_count := rc, timeout_ms := tmo,
                         user_data := ud\<rparr>),
                   alarms := (alarms_after_close t w)(next_timer w \<mapsto>
                       local_after itimerspec_zero
                         (snd (hs_timer_ms_to_timespec_one_shot tmo (Some itimerspec_zero)))),
                   next_timer := Suc (next_timer w)\<rparr>))"
  using assms
  by (simp add: hs_timer_init_def os_defs Let_def alarms_after_close_def)

text \<open>
  C3, as the claim states it, fails: when a timer that is already running is initialised
  again and \<open>timer_create\<close> fails, \<open>hs_timer_init\<close> returns \<open>-3\<close> with the status still
  \<open>RUNNING\<close>, but the alarm the timer owned (id 7) has been deleted.
\<close>

theorem C3_init_counterexample:
  "alarms ((demo_world E_HS_TIMER_STATUS_RUNNING half_second)\<lparr>create_fails := True\<rparr>) 7 =
     Some half_second
   \<and> hs_timer_init 16 1 3 500 42
       ((demo_world E_HS_TIMER_STATUS_RUNNING half_second)\<lparr>create_fails := True\<rparr>) =
     Some (-3, (demo_world E_HS_TIMER_STATUS_RUNNING half_second)
                 \<lparr>create_fails := True, alarms := Map.empty\<rparr>)"
  by (simp add: demo_defs hs_timer_init_def os_defs)

text \<open>
  C3, amended. \<open>hs_timer_init\<close> on a valid handle first deletes the alarm of a timer
  whose status is not \<open>CREATED\<close>, and this is not undone. It succeeds exactly when
  \<open>timer_create\<close> and \<open>timer_settime\<close> both do (the conversion of the timeout cannot
  fail, \<open>-4\<close> is never returned); then it returns 0, the status is
  \<open>RUNNING\<close>, the four supplied parameters are stored and the new alarm is programmed
  with the converted timeout. Otherwise it returns a negative value, the status, callback,
  repeat count, timeout and user data are as before the call, and the alarm created by
  the call is gone: the alarms are those left by the initial deletion (for a timer in
  status \<open>CREATED\<close>: those before the call).
\<close>

theorem C3_init_outcomes:
  assumes "hs_timer \<noteq> NULL" and "heap w hs_timer = Some t"
    and "alarms w (next_timer w) = None"
  shows "\<exists>r w' t'. hs_timer_init hs_timer cb rc tmo ud w = Some (r, w')
       \<and> heap w' = (heap w)(hs_timer \<mapsto> t')
       \<and> (r = 0 \<or> r = -3 \<or> r = -5)
       \<and> (r = 0 \<longleftrightarrow> \<not> create_fails w \<and> \<not> settime_fails w)
       \<and> (r = 0 \<longrightarrow>
            visible t' = (E_HS_TIMER_STATUS_RUNNING, cb, rc, tmo, ud)
            \<and> timer_id t' = next_timer w
            \<and> alarms w' = (alarms_after_close t w)(next_timer w \<mapsto>
                 local_after itimerspec_zero
                   (snd (hs_timer_ms_to_timespec_one_shot tmo (Some itimerspec_zero)))))
       \<and> (r \<noteq> 0 \<longrightarrow>
            r < 0 \<and> visible t' = visible t
            \<and> alarms w' (next_timer w) = None
            \<and> alarms w' = alarms_after_close t w
            \<and> (status t = E_HS_TIMER_STATUS_CREATED \<longrightarrow> alarms w' = alarms w))"
proof -
  have fresh: "alarms_after_close t w (next_timer w) = None"
    using assms(3) by (simp add: alarms_after_close_def)
  then have idem: "(alarms_after_close t w)(next_timer w := None) = alarms_after_close t w"
    by (rule fun_upd_idem)
  have cr: "status t = E_HS_TIMER_STATUS_CREATED \<Longrightarrow> alarms_after_close t w = alarms w"
    by (simp add: alarms_after_close_def)
  have keep: "(heap w)(hs_timer \<mapsto> t) = heap w"
    using assms(2) by (rule map_upd_triv)
  consider "create_fails w" | "\<not> create_fails w" "settime_fails w"
    | "\<not> create_fails w" "\<not> settime_fails w"
    by blast
  then show ?thesis
  proof cases
    case 1
    define w' where "w' = w\<lparr>alarms := alarms_after_close t w\<rparr>"
    have "hs_timer_init hs_timer cb rc tmo ud w = Some (-3, w')"
      using 1 by (simp add: init_result [OF assms(1,2)] w'_def)
    moreover have "heap w' = (heap w)(hs_timer \<mapsto> t)" "alarms w' = alarms_after_close t w"
      using keep by (simp_all add: w'_def)
    ultimately show ?thesis
      using 1 fresh cr
      by (intro exI [of _ "-3"] exI [of _ w'] exI [of _ t]) simp
  next
    case 2
    define w' where "w' = w\<lparr>heap := (heap w)(hs_timer \<mapsto> t\<lparr>timer_id := next_timer w\<rparr>),
                    alarms := (alarms_after_close t w)(next_timer w := None),
                    next_timer := Suc (next_timer w)\<rparr>"
    have "hs_timer_init hs_timer cb rc tmo ud w = Some (-5, w')"
      using 2 by (simp add: init_result [OF assms(1,2)] w'_def)
    moreover have "heap w' = (heap w)(hs_timer \<mapsto> t\<lparr>timer_id := next_timer w\<rparr>)"
      "alarms w' = alarms_after_close t w"
      using idem by (simp_all add: w'_def)
    ultimately show ?thesis
      using 2 fresh cr
      by (intro exI [of _ "-5"] exI [of _ w'] exI [of _ "t\<lparr>timer_id := next_timer w\<rparr>"])
         (simp add: visible_def)
  next
    case 3
    define t' where "t' = t\<lparr>timer_id := next_timer w, status := E_HS_TIMER_STATUS_RUNNING,
                         timer_cb := cb, repeat_count := rc, timeout_ms := tmo,
                         user_data := ud\<rparr>"
    define w' where "w' = w\<lparr>heap := (heap w)(hs_timer \<mapsto> t'),
                   alarms := (alarms_after_close t w)(next_timer w \<mapsto>
                       local_after itimerspec_zero
                         (snd (hs_timer_ms_to_timespec_one_shot tmo (Some itimerspec_zero)))),
                   next_timer := Suc (next_timer w)\<rparr>"
    have "hs_timer_init hs_timer cb rc tmo ud w = Some (0, w')"
      using 3 by (simp add: init_result [OF assms(1,2)] w'_def t'_def)
    moreover have "heap w' = (heap w)(hs_timer \<mapsto> t')"
      "alarms w' = (alarms_after_close t w)(next_timer w \<mapsto>
                       local_after itimerspec_zero
                         (snd (hs_timer_ms_to_timespec_one_shot tmo (Some itimerspec_zero))))"
      by (simp_all add: w'_def)
    moreover have "visible t' = (E_HS_TIMER_STATUS_RUNNING, cb, rc, tmo, ud)"
      "timer_id t' = next_timer w"
      by (simp_all add: t'_def visible_def)
    ultimately show ?thesis
      using 3
      by (intro exI [of _ 0] exI [of _ w'] exI [of _ t']) simp
  qed
qed

theorem C3_init_outcomes_witness:
  "alarms created_world (next_timer created_world) = None
   \<and> hs_timer_init 16 1 3 500 42 created_world =
       Some (0, demo_world E_HS_TIMER_STATUS_RUNNING half_second)
   \<and> visible (demo_timer E_HS_TIMER_STATUS_RUNNING) =
       (E_HS_TIMER_STATUS_RUNNING, 1, 3, 500, 42)
   \<and> hs_timer_init 16 1 3 500 42 (created_world\<lparr>settime_fails := True\<rparr>) =
       Some (-5, created_world\<lparr>settime_fails := True, next_timer := 8,
                   heap := [16 \<mapsto>
                     \<lparr>timer_id = 7, status = E_HS_TIMER_STATUS_CREATED, timer_cb = NULL,
                      repeat_count = - 1, timeout_ms = 0, user_data = NULL\<rparr>]\<rparr>)
   \<and> alarms (created_world\<lparr>settime_fails := True\<rparr>) = Map.empty"
proof -
  have n: "(16::nat) \<noteq> NULL"
    by simp
  have c: "heap (created_world\<lparr>settime_fails := b\<rparr>) 16 =
      Some \<lparr>timer_id = 0, status = E_HS_TIMER_STATUS_CREATED, timer_cb = NULL,
            repeat_count = - 1, timeout_ms = 0, user_data = NULL\<rparr>" for b
    by (simp add: demo_defs)
  have f: "alarms (created_world\<lparr>settime_fails := b\<rparr>)
      (next_timer (created_world\<lparr>settime_fails := b\<rparr>)) = None" for b
    by (simp add: demo_defs)
  have e: "created_world\<lparr>settime_fails := False\<rparr> = created_world"
    by (simp add: demo_defs)
  show ?thesis
    using C3_init_outcomes [OF n c [of False] f [of False],
        where cb = 1 and rc = 3 and tmo = 500 and ud = 42]
      C3_init_outcomes [OF n c [of True] f [of True],
        where cb = 1 and rc = 3 and tmo = 500 and ud = 42]
    unfolding e
    by (simp add: demo_defs hs_timer_init_def os_defs itimerspec_zero_def visible_def)
qed

section \<open>After the status has become \<open>REQUEST_DESTROY\<close>\<close>

text \<open>
  C1, as the claim states it, fails for \<open>hs_timer_init\<close>: it does not look at the status
  beyond closing the old alarm, and on success it sets the status of a timer in
  \<open>REQUEST_DESTROY\<close> back to \<open>RUNNING\<close>.
\<close>

theorem C1_reinit_counterexample:
  "heap (demo_world E_HS_TIMER_STATUS_REQUEST_DESTROY half_second) 16 =
       Some (demo_timer E_HS_TIMER_STATUS_REQUEST_DESTROY)
   \<and> status (demo_timer E_HS_TIMER_STATUS_REQUEST_DESTROY) = E_HS_TIMER_STATUS_REQUEST_DESTROY
   \<and> hs_timer_init 16 1 3 500 42 (demo_world E_HS_TIMER_STATUS_REQUEST_DESTROY half_second) =
       Some (0, (demo_world E_HS_TIMER_STATUS_RUNNING half_second)
                  \<lparr>heap := [16 \<mapsto> (demo_timer E_HS_TIMER_STATUS_RUNNING)\<lparr>timer_id := 8\<rparr>],
                   alarms := [8 \<mapsto> half_second], next_timer := 9\<rparr>)
   \<and> status ((demo_timer E_HS_TIMER_STATUS_RUNNING)\<lparr>timer_id := 8\<rparr>) =
       E_HS_TIMER_STATUS_RUNNING"
  by (simp add: demo_defs hs_timer_init_def os_defs itimerspec_zero_def)

text \<open>
  C1, amended. Once the status of a timer is \<open>REQUEST_DESTROY\<close>, none of
  \<open>hs_timer_destroy\<close>, \<open>hs_timer_set_cb\<close>, \<open>hs_timer_set_repeat_count\<close>,
  \<open>hs_timer_set_timeout\<close>, \<open>hs_timer_set_user_data\<close>, \<open>hs_timer_ready\<close>,
  \<open>hs_timer_pause\<close> and \<open>hs_timer_resume\<close> changes the status (they change nothing at
  all), and the next run of the firing handler frees the timer. \<open>hs_timer_init\<close> is the
  one exception: it is not guarded by the status; when it succeeds the status is
  \<open>RUNNING\<close>, when it fails the status stays \<open>REQUEST_DESTROY\<close>.
\<close>

theorem C1_pending_destroy_status:
  assumes "hs_timer \<noteq> NULL" and "heap w hs_timer = Some t"
    and "status t = E_HS_TIMER_STATUS_REQUEST_DESTROY"
  shows "hs_timer_destroy hs_timer w = Some (0, w)
       \<and> hs_timer_set_cb hs_timer cb w = Some (-2, w)
       \<and> hs_timer_set_repeat_count hs_timer rc w = Some (-2, w)
       \<and> hs_timer_set_timeout hs_timer tmo w = Some (-2, w)
       \<and> hs_timer_set_user_data hs_timer ud w = Some (-2, w)
       \<and> hs_timer_ready hs_timer w = Some (-2, w)
       \<and> hs_timer_pause hs_timer w = Some (-2, w)
       \<and> hs_timer_resume hs_timer w = Some (-2, w)
       \<and> (\<exists>r w' t'. hs_timer_init hs_timer cb rc tmo ud w = Some (r, w')
             \<and> heap w' hs_timer = Some t'
             \<and> (r = 0 \<longleftrightarrow> \<not> create_fails w \<and> \<not> settime_fails w)
             \<and> status t' = (if r = 0 then E_HS_TIMER_STATUS_RUNNING
                             else E_HS_TIMER_STATUS_REQUEST_DESTROY))
       \<and> (\<exists>w'. hs_timer_thread prog hs_timer w = Some w' \<and> heap w' hs_timer = None)"
proof -
  have ops: "hs_timer_destroy hs_timer w = Some (0, w)
       \<and> hs_timer_set_cb hs_timer cb w = Some (-2, w)
       \<and> hs_timer_set_repeat_count hs_timer rc w = Some (-2, w)
       \<and> hs_timer_set_timeout hs_timer tmo w = Some (-2, w)
       \<and> hs_timer_set_user_data hs_timer ud w = Some (-2, w)
       \<and> hs_timer_ready hs_timer w = Some (-2, w)
       \<and> hs_timer_pause hs_timer w = Some (-2, w)
       \<and> hs_timer_resume hs_timer w = Some (-2, w)"
    using assms
    by (simp add: hs_timer_destroy_def hs_timer_set_cb_def hs_timer_set_repeat_count_def
        hs_timer_set_timeout_def hs_timer_set_user_data_def hs_timer_pause_def
        hs_timer_resume_def hs_timer_ready_def)
  have ini: "\<exists>r w' t'. hs_timer_init hs_timer cb rc tmo ud w = Some (r, w')
             \<and> heap w' hs_timer = Some t'
             \<and> (r = 0 \<longleftrightarrow> \<not> create_fails w \<and> \<not> settime_fails w)
             \<and> status t' = (if r = 0 then E_HS_TIMER_STATUS_RUNNING
                             else E_HS_TIMER_STATUS_REQUEST_DESTROY)"
    using assms(2,3) by (auto simp: init_result [OF assms(1,2)])
  have thr: "\<exists>w'. hs_timer_thread prog hs_timer w = Some w' \<and> heap w' hs_timer = None"
    using assms
    by (simp add: hs_timer_thread_def hs_timer_thread_enter_def hs_timer_teardown_def os_defs)
  show ?thesis
    using ops ini thr by blast
qed

theorem C1_pending_destroy_status_witness:
  "hs_timer_destroy 16 (demo_world E_HS_TIMER_STATUS_REQUEST_DESTROY half_second) =
     Some (0, demo_world E_HS_TIMER_STATUS_REQUEST_DESTROY half_second)
   \<and> hs_timer_resume 16 (demo_world E_HS_TIMER_STATUS_REQUEST_DESTROY half_second) =
     Some (-2, demo_world E_HS_TIMER_STATUS_REQUEST_DESTROY half_second)
   \<and> hs_timer_thread counting_prog 16 (demo_world E_HS_TIMER_STATUS_REQUEST_DESTROY half_second) =
     Some (boot_world\<lparr>next_timer := 8, trace := [EvMutexDestroy 16]\<rparr>)"
proof -
  have h: "heap (demo_world E_HS_TIMER_STATUS_REQUEST_DESTROY half_second) 16 =
      Some (demo_timer E_HS_TIMER_STATUS_REQUEST_DESTROY)"
    by (simp add: demo_world_def)
  have s: "status (demo_timer E_HS_TIMER_STATUS_REQUEST_DESTROY) =
      E_HS_TIMER_STATUS_REQUEST_DESTROY"
    by (simp add: demo_timer_def)
  have n: "(16::nat) \<noteq> NULL"
    by simp
  have t: "hs_timer_thread counting_prog 16
      (demo_world E_HS_TIMER_STATUS_REQUEST_DESTROY half_second) =
     Some (boot_world\<lparr>next_timer := 8, trace := [EvMutexDestroy 16]\<rparr>)"
    by (simp add: demo_defs hs_timer_thread_def hs_timer_thread_enter_def
        hs_timer_teardown_def os_defs)
  show ?thesis
    using t C1_pending_destroy_status [OF n h s,
        where cb = 1 and rc = 3 and tmo = 500 and ud = 42 and prog = counting_prog]
    by simp
qed

section \<open>One run of the firing handler\<close>

lemma leave_keeps_object:
  assumes "heap v p = Some t2" and "hs_timer_thread_leave p v = Some v'"
  shows "heap v' p = None \<or> heap v' p = Some t2"
  using assms
  by (auto simp: hs_timer_thread_leave_def hs_timer_teardown_def os_defs settime_frame
      split: if_splits)

text \<open>
  C5. In a run of the handler that gets past the test for \<open>REQUEST_DESTROY\<close>: a repeat
  count that is neither 0 nor \<open>UINT32_MAX\<close> is decremented by one, without wrapping,
  before the callback is called (the callback is called on the world with the
  decremented count), and the status becomes \<open>REQUEST_DESTROY\<close> exactly when the count
  has reached 0; a repeat count of \<open>UINT32_MAX\<close> or of 0 is left as it is, with the
  status; the count never grows, so it never wraps below 0; and the rest of the handler
  does not touch the count again: after it the timer is either freed or as the callback
  left it.
\<close>

theorem C5_decrement_before_callback:
  assumes "heap w p = Some t" and "status t \<noteq> E_HS_TIMER_STATUS_REQUEST_DESTROY"
  shows "\<exists>t1. hs_timer_thread_enter p w = Some (Inr (w\<lparr>heap := (heap w)(p \<mapsto> t1)\<rparr>))
       \<and> (repeat_count t \<noteq> 0 \<and> repeat_count t \<noteq> UINT32_MAX \<longrightarrow>
            repeat_count t1 = repeat_count t - 1
            \<and> unat (repeat_count t1) + 1 = unat (repeat_count t)
            \<and> (status t1 = E_HS_TIMER_STATUS_REQUEST_DESTROY \<longleftrightarrow> repeat_count t1 = 0)
            \<and> (repeat_count t1 \<noteq> 0 \<longrightarrow> status t1 = status t))
       \<and> (repeat_count t = UINT32_MAX \<or> repeat_count t = 0 \<longrightarrow> t1 = t)
       \<and> unat (repeat_count t1) \<le> unat (repeat_count t)
       \<and> timer_id t1 = timer_id t \<and> timer_cb t1 = timer_cb t
       \<and> timeout_ms t1 = timeout_ms t \<and> user_data t1 = user_data t
       \<and> (p \<noteq> NULL \<and> timer_cb t \<noteq> NULL \<longrightarrow>
            hs_timer_thread prog p w =
              hs_timer_thread_leave p
                (prog (timer_cb t) p
                   (w\<lparr>heap := (heap w)(p \<mapsto> t1),
                      trace := trace w @ [EvCallback (timer_cb t) p]\<rparr>)))
       \<and> (\<forall>v v' t2. heap v p = Some t2 \<and> hs_timer_thread_leave p v = Some v' \<longrightarrow>
            heap v' p = None \<or> heap v' p = Some t2)"
proof -
  have lv: "\<forall>v v' t2. heap v p = Some t2 \<and> hs_timer_thread_leave p v = Some v' \<longrightarrow>
            heap v' p = None \<or> heap v' p = Some t2"
    using leave_keeps_object by blast
  show ?thesis
  proof (cases "repeat_count t \<noteq> 0 \<and> repeat_count t \<noteq> UINT32_MAX")
    case False
    have en: "hs_timer_thread_enter p w = Some (Inr (w\<lparr>heap := (heap w)(p \<mapsto> t)\<rparr>))"
      using assms False by (auto simp: hs_timer_thread_enter_def)
    have th: "p \<noteq> NULL \<and> timer_cb t \<noteq> NULL \<longrightarrow>
            hs_timer_thread prog p w =
              hs_timer_thread_leave p
                (prog (timer_cb t) p
                   (w\<lparr>heap := (heap w)(p \<mapsto> t),
                      trace := trace w @ [EvCallback (timer_cb t) p]\<rparr>))"
      by (simp add: hs_timer_thread_def en hs_timer_thread_call_def)
    show ?thesis
      using en th lv False by (intro exI [of _ t]) simp
  next
    case True
    then have n0: "repeat_count t \<noteq> 0" and nm: "repeat_count t \<noteq> UINT32_MAX"
      by simp_all
    note wf = word_facts [OF n0 nm]
    define t1 where "t1 =
      (if repeat_count t - 1 = 0
       then t\<lparr>repeat_count := repeat_count t - 1, status := E_HS_TIMER_STATUS_REQUEST_DESTROY\<rparr>
       else t\<lparr>repeat_count := repeat_count t - 1\<rparr>)"
    have en: "hs_timer_thread_enter p w = Some (Inr (w\<lparr>heap := (heap w)(p \<mapsto> t1)\<rparr>))"
      using assms wf(1,2) by (simp add: hs_timer_thread_enter_def Let_def t1_def)
    have rc1: "repeat_count t1 = repeat_count t - 1"
      and fr: "timer_id t1 = timer_id t" "timer_cb t1 = timer_cb t"
        "timeout_ms t1 = timeout_ms t" "user_data t1 = user_data t"
      by (simp_all add: t1_def)
    have st1: "status t1 = E_HS_TIMER_STATUS_REQUEST_DESTROY \<longleftrightarrow> repeat_count t1 = 0"
      using assms(2) by (simp add: t1_def)
    have st2: "repeat_count t1 \<noteq> 0 \<longrightarrow> status t1 = status t"
      by (simp add: t1_def)
    have un: "unat (repeat_count t1) + 1 = unat (repeat_count t)"
      using wf(3,4) by (simp add: rc1)
    then have le: "unat (repeat_count t1) \<le> unat (repeat_count t)"
      by simp
    have th: "p \<noteq> NULL \<and> timer_cb t \<noteq> NULL \<longrightarrow>
            hs_timer_thread prog p w =
              hs_timer_thread_leave p
                (prog (timer_cb t) p
                   (w\<lparr>heap := (heap w)(p \<mapsto> t1),
                      trace := trace w @ [EvCallback (timer_cb t) p]\<rparr>))"
      by (simp add: hs_timer_thread_def en hs_timer_thread_call_def fr)
    show ?thesis
      using en rc1 fr st1 st2 un le th lv True by (intro exI [of _ t1]) simp
  qed
qed

theorem C5_decrement_before_callback_witness:
  "hs_timer_thread_enter 16 (demo_world E_HS_TIMER_STATUS_RUNNING half_second) =
     Some (Inr ((demo_world E_HS_TIMER_STATUS_RUNNING half_second)
       \<lparr>heap := [16 \<mapsto> (demo_timer E_HS_TIMER_STATUS_RUNNING)\<lparr>repeat_count := 2\<rparr>]\<rparr>))
   \<and> hs_timer_thread_enter 16
       ((demo_world E_HS_TIMER_STATUS_RUNNING half_second)
          \<lparr>heap := [16 \<mapsto> (demo_timer E_HS_TIMER_STATUS_RUNNING)\<lparr>repeat_count := 1\<rparr>]\<rparr>) =
     Some (Inr ((demo_world E_HS_TIMER_STATUS_RUNNING half_second)
       \<lparr>heap := [16 \<mapsto> (demo_timer E_HS_TIMER_STATUS_REQUEST_DESTROY)\<lparr>repeat_count := 0\<rparr>]\<rparr>))
   \<and> hs_timer_thread_enter 16
       ((demo_world E_HS_TIMER_STATUS_RUNNING half_second)
          \<lparr>heap := [16 \<mapsto> (demo_timer E_HS_TIMER_STATUS_RUNNING)\<lparr>repeat_count := UINT32_MAX\<rparr>]\<rparr>) =
     Some (Inr ((demo_world E_HS_TIMER_STATUS_RUNNING half_second)
       \<lparr>heap := [16 \<mapsto> (demo_timer E_HS_TIMER_STATUS_RUNNING)\<lparr>repeat_count := UINT32_MAX\<rparr>]\<rparr>))"
proof -
  have d: "heap (demo_world E_HS_TIMER_STATUS_RUNNING half_second) 16 =
      Some (demo_timer E_HS_TIMER_STATUS_RUNNING)"
    by (simp add: demo_world_def)
  have s: "status (demo_timer E_HS_TIMER_STATUS_RUNNING) \<noteq> E_HS_TIMER_STATUS_REQUEST_DESTROY"
    by (simp add: demo_timer_def)
  show ?thesis
    using C5_decrement_before_callback [OF d s, where prog = counting_prog]
    by (simp add: demo_defs hs_timer_thread_enter_def UINT32_MAX_def)
qed

text \<open>
  C9. \<open>hs_timer_set_repeat_count\<close> accepts 0 on a running timer. When the handler then
  runs on a timer whose repeat count is 0 and whose status is not \<open>REQUEST_DESTROY\<close>,
  the first section changes nothing (no decrement), the callback is still called, and
  if the callback leaves the repeat count at 0 the handler tears the timer down: it
  deletes the alarm, destroys the mutex and frees the object. A repeat count of 0 thus
  gives one more firing, not none.
\<close>

theorem C9_zero_repeat_count_fires_once:
  assumes "p \<noteq> NULL" and "heap w p = Some t"
    and "status t \<noteq> E_HS_TIMER_STATUS_REQUEST_DESTROY" and "repeat_count t = 0"
    and "timer_cb t \<noteq> NULL"
    and "heap (prog (timer_cb t) p (w\<lparr>trace := trace w @ [EvCallback (timer_cb t) p]\<rparr>)) p =
           Some tc"
    and "repeat_count tc = 0"
  shows "hs_timer_thread_enter p w = Some (Inr w)
       \<and> hs_timer_thread_call prog p w =
           Some (prog (timer_cb t) p (w\<lparr>trace := trace w @ [EvCallback (timer_cb t) p]\<rparr>))
       \<and> hs_timer_thread prog p w =
           Some (hs_timer_teardown p tc
                  (prog (timer_cb t) p (w\<lparr>trace := trace w @ [EvCallback (timer_cb t) p]\<rparr>)))
       \<and> heap (hs_timer_teardown p tc
                  (prog (timer_cb t) p (w\<lparr>trace := trace w @ [EvCallback (timer_cb t) p]\<rparr>))) p
           = None
       \<and> alarms (hs_timer_teardown p tc
                  (prog (timer_cb t) p (w\<lparr>trace := trace w @ [EvCallback (timer_cb t) p]\<rparr>)))
           (timer_id tc) = None
       \<and> (\<forall>w0 t0. heap w0 p = Some t0 \<and> status t0 = E_HS_TIMER_STATUS_RUNNING \<longrightarrow>
            hs_timer_set_repeat_count p 0 w0 =
              Some (0, w0\<lparr>heap := (heap w0)(p \<mapsto> t0\<lparr>repeat_count := 0\<rparr>)\<rparr>))"
proof -
  have keep: "(heap w)(p \<mapsto> t) = heap w"
    using assms(2) by (rule map_upd_triv)
  have en: "hs_timer_thread_enter p w = Some (Inr w)"
    using assms(2,3,4) keep by (simp add: hs_timer_thread_enter_def)
  have ca: "hs_timer_thread_call prog p w =
           Some (prog (timer_cb t) p (w\<lparr>trace := trace w @ [EvCallback (timer_cb t) p]\<rparr>))"
    using assms(2,5) by (simp add: hs_timer_thread_call_def)
  have lv: "hs_timer_thread_leave p
       (prog (timer_cb t) p (w\<lparr>trace := trace w @ [EvCallback (timer_cb t) p]\<rparr>)) =
     Some (hs_timer_teardown p tc
            (prog (timer_cb t) p (w\<lparr>trace := trace w @ [EvCallback (timer_cb t) p]\<rparr>)))"
    using assms(6,7) by (simp add: hs_timer_thread_leave_def)
  have th: "hs_timer_thread prog p w =
           Some (hs_timer_teardown p tc
                  (prog (timer_cb t) p (w\<lparr>trace := trace w @ [EvCallback (timer_cb t) p]\<rparr>)))"
    using assms(1) by (simp add: hs_timer_thread_def en ca lv)
  have td: "heap (hs_timer_teardown p tc v) p = None"
    "alarms (hs_timer_teardown p tc v) (timer_id tc) = None" for v :: "'a world"
    by (simp_all add: hs_timer_teardown_def os_defs)
  have sr: "\<forall>w0 t0. heap w0 p = Some t0 \<and> status t0 = E_HS_TIMER_STATUS_RUNNING \<longrightarrow>
            hs_timer_set_repeat_count p 0 w0 =
              Some (0, w0\<lparr>heap := (heap w0)(p \<mapsto> t0\<lparr>repeat_count := 0\<rparr>)\<rparr>)"
    using assms(1) by (simp add: hs_timer_set_repeat_count_def)
  show ?thesis
    using en ca th td sr by simp
qed

theorem C9_zero_repeat_count_fires_once_witness:
  "hs_timer_set_repeat_count 16 0 (demo_world E_HS_TIMER_STATUS_RUNNING half_second) =
     Some (0, (demo_world E_HS_TIMER_STATUS_RUNNING half_second)
       \<lparr>heap := [16 \<mapsto> (demo_timer E_HS_TIMER_STATUS_RUNNING)\<lparr>repeat_count := 0\<rparr>]\<rparr>)
   \<and> hs_timer_thread counting_prog 16
       ((demo_world E_HS_TIMER_STATUS_RUNNING half_second)
          \<lparr>heap := [16 \<mapsto> (demo_timer E_HS_TIMER_STATUS_RUNNING)\<lparr>repeat_count := 0\<rparr>]\<rparr>) =
     Some (boot_world\<lparr>next_timer := 8, trace := [EvCallback 1 16, EvMutexDestroy 16],
             ext := 1\<rparr>)"
proof -
  let ?t = "(demo_timer E_HS_TIMER_STATUS_RUNNING)\<lparr>repeat_count := 0\<rparr>"
  let ?w = "(demo_world E_HS_TIMER_STATUS_RUNNING half_second)\<lparr>heap := [16 \<mapsto> ?t]\<rparr>"
  have n: "(16::nat) \<noteq> NULL"
    by simp
  have h: "heap ?w 16 = Some ?t"
    by simp
  have s: "status ?t \<noteq> E_HS_TIMER_STATUS_REQUEST_DESTROY"
    by (simp add: demo_timer_def)
  have r: "repeat_count ?t = 0"
    by simp
  have c: "timer_cb ?t \<noteq> NULL"
    by (simp add: demo_timer_def)
  have a: "heap (counting_prog (timer_cb ?t) 16
      (?w\<lparr>trace := trace ?w @ [EvCallback (timer_cb ?t) 16]\<rparr>)) 16 = Some ?t"
    by (simp add: counting_prog_def)
  have d: "heap (demo_world E_HS_TIMER_STATUS_RUNNING half_second) 16 =
      Some (demo_timer E_HS_TIMER_STATUS_RUNNING)"
    by (simp add: demo_world_def)
  have sd: "status (demo_timer E_HS_TIMER_STATUS_RUNNING) = E_HS_TIMER_STATUS_RUNNING"
    by (simp add: demo_timer_def)
  note inst = C9_zero_repeat_count_fires_once
      [where prog = counting_prog and p = 16 and w = "?w" and t = "?t" and tc = "?t",
        OF n h s r c a r]
  have all: "\<forall>w0 t0. heap w0 16 = Some t0 \<and> status t0 = E_HS_TIMER_STATUS_RUNNING \<longrightarrow>
            hs_timer_set_repeat_count 16 0 w0 =
              Some (0, w0\<lparr>heap := (heap w0)(16 \<mapsto> t0\<lparr>repeat_count := 0\<rparr>)\<rparr>)"
    by (rule inst [THEN conjunct2, THEN conjunct2, THEN conjunct2, THEN conjunct2,
          THEN conjunct2])
  have run: "hs_timer_thread counting_prog 16 ?w =
           Some (hs_timer_teardown 16 ?t
                  (counting_prog (timer_cb ?t) 16
                     (?w\<lparr>trace := trace ?w @ [EvCallback (timer_cb ?t) 16]\<rparr>)))"
    by (rule inst [THEN conjunct2, THEN conjunct2, THEN conjunct1])
  have "hs_timer_set_repeat_count 16 0 (demo_world E_HS_TIMER_STATUS_RUNNING half_second) =
     Some (0, (demo_world E_HS_TIMER_STATUS_RUNNING half_second)
       \<lparr>heap := (heap (demo_world E_HS_TIMER_STATUS_RUNNING half_second))
          (16 \<mapsto> (demo_timer E_HS_TIMER_STATUS_RUNNING)\<lparr>repeat_count := 0\<rparr>)\<rparr>)"
    using all d sd by blast
  then show ?thesis
    using run
    by (simp add: demo_defs counting_prog_def hs_timer_teardown_def os_defs)
qed

section \<open>Repeated firing\<close>














end
